theory Spec2Isabelle
  imports Main "HOL-Library.Word" "HOL-Library.Sublist"
begin

section \<open>The J2534 native probe\<close>

text \<open>
  A model of \<^verbatim>\<open>src/AutoDiag/native/j2534_native_probe.cpp\<close>: the two functions
  \<^verbatim>\<open>GetLastWinError\<close> and \<^verbatim>\<open>main\<close>. The program is a straight line of foreign
  calls, so the model threads an explicit state (the two streams and the list of foreign
  calls made so far) through it, and takes the answers of the platform and of the driver
  from a record describing the world of one run.
\<close>

subsection \<open>Machine types\<close>

text \<open>
  The program is built for Windows, where \<^verbatim>\<open>long\<close>, \<^verbatim>\<open>unsigned long\<close> and
  \<^verbatim>\<open>DWORD\<close> are 32 bits wide. A \<^verbatim>\<open>long\<close> is read as two's complement (\<open>sint\<close>).
\<close>

type_synonym long = "32 word"
type_synonym ulong = "32 word"
type_synonym dword = "32 word"

abbreviation NUL :: char where
  "NUL \<equiv> CHR 0x00"

subsection \<open>The text a driver can leave in the error buffer\<close>

text \<open>
  \<^verbatim>\<open>char err[256] = {0}; passThruGetLastError(err);\<close> hands the driver a zeroed buffer
  of 256 bytes and prints it afterwards as a C string. The texts a driver can leave there
  are the strings without a NUL that fit together with their terminator. A driver that
  stores more overruns the stack of the probe, and C++ gives such a run no meaning, so
  these runs are outside the model.
\<close>

typedef drv_text = "{s :: string. length s < 256 \<and> NUL \<notin> set s}"
  morphisms text_of Abs_drv_text
  by (rule exI [of _ "[]"]) simp

setup_lifting type_definition_drv_text

lift_definition mk_drv_text :: "string \<Rightarrow> drv_text"
  is "\<lambda>s. takeWhile (\<lambda>c. c \<noteq> NUL) (take 255 s)"
proof -
  fix s :: string
  let ?t = "takeWhile (\<lambda>c. c \<noteq> NUL) (take 255 s)"
  have "length ?t \<le> length (take 255 s)"
    by (rule length_takeWhile_le)
  then have "length ?t < 256"
    by simp
  moreover have "NUL \<notin> set ?t"
    by (auto dest: set_takeWhileD)
  ultimately show "length ?t < 256 \<and> NUL \<notin> set ?t"
    by simp
qed

subsection \<open>The world of one run\<close>

text \<open>
  A loaded library, as far as the probe can see it: which names \<^verbatim>\<open>GetProcAddress\<close>
  resolves, and what the three entry points do. \<^verbatim>\<open>PassThruOpen\<close> receives the address
  of \<^verbatim>\<open>deviceId\<close>: it is a function from the value of that slot before the call to the
  status it returns and the value of the slot after the call.
\<close>

record module =
  exports :: "string \<Rightarrow> bool"
  pt_open :: "ulong \<Rightarrow> long \<times> ulong"
  pt_close :: "ulong \<Rightarrow> long"
  pt_last_error :: drv_text

text \<open>
  The platform: \<^verbatim>\<open>LoadLibraryA\<close> (no module is a null handle), the value
  \<^verbatim>\<open>GetLastError\<close> returns when the probe asks, and the text \<^verbatim>\<open>FormatMessageA\<close>
  allocates for an error code (none when it leaves the buffer pointer null).
\<close>

record world =
  load_library :: "string \<Rightarrow> module option"
  last_error :: dword
  format_message :: "dword \<Rightarrow> string option"

subsection \<open>State: the streams and the foreign calls\<close>

datatype call =
    Call_LoadLibraryA string
  | Call_GetLastError
  | Call_FormatMessageA dword
  | Call_LocalFree
  | Call_GetProcAddress string
  | Call_PassThruOpen
  | Call_PassThruGetLastError
  | Call_PassThruClose ulong
  | Call_FreeLibrary

record io =
  cout :: string
  cerr :: string
  calls :: "call list"

definition io_start :: io where
  "io_start = \<lparr>cout = [], cerr = [], calls = []\<rparr>"

definition to_cout :: "string \<Rightarrow> io \<Rightarrow> io" where
  "to_cout s \<sigma> = \<sigma>\<lparr>cout := cout \<sigma> @ s\<rparr>"

definition to_cerr :: "string \<Rightarrow> io \<Rightarrow> io" where
  "to_cerr s \<sigma> = \<sigma>\<lparr>cerr := cerr \<sigma> @ s\<rparr>"

definition called :: "call \<Rightarrow> io \<Rightarrow> io" where
  "called c \<sigma> = \<sigma>\<lparr>calls := calls \<sigma> @ [c]\<rparr>"

text \<open>\<^verbatim>\<open>std::endl\<close> writes a newline (and flushes, which the model does not see).\<close>

definition endl :: string where
  \<open>endl = ''\<newline>''\<close>

subsection \<open>Printing a \<^verbatim>\<open>long\<close>\<close>

text \<open>
  \<^verbatim>\<open>stream << long\<close> with the default flags: decimal digits, a minus sign for a
  negative value, nothing else.
\<close>

definition digit_char :: "nat \<Rightarrow> char" where
  "digit_char d = char_of (48 + d)"

function show_nat :: "nat \<Rightarrow> string" where
  "show_nat n = (if n < 10 then [digit_char n] else show_nat (n div 10) @ [digit_char (n mod 10)])"
  by pat_completeness auto
termination
  by (relation "measure id") auto

declare show_nat.simps [simp del]

definition show_int :: "int \<Rightarrow> string" where
  "show_int i = (if i < 0 then CHR ''-'' # show_nat (nat (- i)) else show_nat (nat i))"

definition show_long :: "long \<Rightarrow> string" where
  "show_long x = show_int (sint x)"

subsection \<open>\<^verbatim>\<open>GetLastWinError\<close>\<close>

text \<open>
  \<^verbatim>\<open>FormatMessageA\<close> with \<^verbatim>\<open>FORMAT_MESSAGE_ALLOCATE_BUFFER\<close> returns the number of
  characters it stored and sets the buffer pointer; on failure it returns 0 and leaves the
  pointer as it was (null).
\<close>

definition FormatMessageA :: "world \<Rightarrow> dword \<Rightarrow> nat \<times> string option" where
  "FormatMessageA w e =
     (case format_message w e of
        None \<Rightarrow> (0, None)
      | Some s \<Rightarrow> (length s, Some s))"

definition GetLastWinError :: "world \<Rightarrow> io \<Rightarrow> string \<times> io" where
  "GetLastWinError w \<sigma> =
     (let err = last_error w;
          \<sigma> = called Call_GetLastError \<sigma>
      in if err = 0 then (''none'', \<sigma>)
         else
           let (size, buffer) = FormatMessageA w err;
               \<sigma> = called (Call_FormatMessageA err) \<sigma>;
               msg = (case buffer of
                        Some b \<Rightarrow> if size \<noteq> 0 then take size b else ''unknown''
                      | None \<Rightarrow> ''unknown'')
           in case buffer of
                Some b \<Rightarrow> (msg, called Call_LocalFree \<sigma>)
              | None \<Rightarrow> (msg, \<sigma>))"

subsection \<open>The error buffer of the open stage\<close>

text \<open>
  What the call \<^verbatim>\<open>passThruGetLastError(err)\<close> does to the buffer: the driver stores
  its text and the terminator from the first byte on. \<open>c_str\<close> is how the stream reads a
  \<^verbatim>\<open>char\<close> array: up to the first NUL.
\<close>

definition PassThruGetLastError :: "module \<Rightarrow> char list \<Rightarrow> char list" where
  "PassThruGetLastError m buf =
     (let t = text_of (pt_last_error m)
      in t @ NUL # drop (Suc (length t)) buf)"

definition c_str :: "char list \<Rightarrow> string" where
  "c_str buf = takeWhile (\<lambda>c. c \<noteq> NUL) buf"

subsection \<open>\<^verbatim>\<open>main\<close>\<close>

text \<open>
  \<open>argv\<close> is the whole argument vector, the program name first, and \<^verbatim>\<open>argc\<close> is its
  length. The result is the exit code and the final state.
\<close>

definition main :: "world \<Rightarrow> string list \<Rightarrow> int \<times> io" where
  \<open>main w argv =
     (if length argv < 2 then
        (2, to_cerr ''usage: j2534_native_probe <path-to-j2534-dll>\<newline>'' io_start)
      else
        let dllPath = argv ! 1;
            \<sigma> = called (Call_LoadLibraryA dllPath) io_start
        in case load_library w dllPath of
             None \<Rightarrow>
               let \<sigma> = to_cerr ''{"status":"error","stage":"load","message":"'' \<sigma>;
                   (msg, \<sigma>) = GetLastWinError w \<sigma>;
                   \<sigma> = to_cerr endl (to_cerr ''"}'' (to_cerr msg \<sigma>))
               in (1, \<sigma>)
           | Some lib \<Rightarrow>
               let passThruOpen = exports lib ''PassThruOpen'';
                   \<sigma> = called (Call_GetProcAddress ''PassThruOpen'') \<sigma>;
                   passThruClose = exports lib ''PassThruClose'';
                   \<sigma> = called (Call_GetProcAddress ''PassThruClose'') \<sigma>;
                   passThruGetLastError = exports lib ''PassThruGetLastError'';
                   \<sigma> = called (Call_GetProcAddress ''PassThruGetLastError'') \<sigma>
               in if \<not> passThruOpen \<or> \<not> passThruClose \<or> \<not> passThruGetLastError then
                    let \<sigma> = to_cerr endl (to_cerr
                          ''{"status":"error","stage":"symbols","message":"Required J2534 exports missing"}'' \<sigma>);
                        \<sigma> = called Call_FreeLibrary \<sigma>
                    in (1, \<sigma>)
                  else
                    let (openStatus, deviceId) = pt_open lib 0;
                        \<sigma> = called Call_PassThruOpen \<sigma>
                    in if openStatus \<noteq> 0 then
                         let err = PassThruGetLastError lib (replicate 256 NUL);
                             \<sigma> = called Call_PassThruGetLastError \<sigma>;
                             \<sigma> = to_cerr ''{"status":"error","stage":"open","code":'' \<sigma>;
                             \<sigma> = to_cerr (show_long openStatus) \<sigma>;
                             \<sigma> = to_cerr '',"message":"'' \<sigma>;
                             \<sigma> = to_cerr endl (to_cerr ''"}'' (to_cerr (c_str err) \<sigma>));
                             \<sigma> = called Call_FreeLibrary \<sigma>
                         in (1, \<sigma>)
                       else
                         let closeStatus = pt_close lib deviceId;
                             \<sigma> = called (Call_PassThruClose deviceId) \<sigma>;
                             \<sigma> = called Call_FreeLibrary \<sigma>
                         in if closeStatus \<noteq> 0 then
                              let \<sigma> = to_cerr ''{"status":"error","stage":"close","code":'' \<sigma>;
                                  \<sigma> = to_cerr (show_long closeStatus) \<sigma>;
                                  \<sigma> = to_cerr endl (to_cerr '',"message":"PassThruClose failed"}'' \<sigma>)
                              in (1, \<sigma>)
                            else
                              let \<sigma> = to_cout endl (to_cout
                                    ''{"status":"ok","message":"J2534 DLL probe successful"}'' \<sigma>)
                              in (0, \<sigma>))\<close>

subsection \<open>What a run leaves behind\<close>

definition run_exit :: "world \<Rightarrow> string list \<Rightarrow> int" where
  "run_exit w argv = fst (main w argv)"

definition run_out :: "world \<Rightarrow> string list \<Rightarrow> string" where
  "run_out w argv = cout (snd (main w argv))"

definition run_err :: "world \<Rightarrow> string list \<Rightarrow> string" where
  "run_err w argv = cerr (snd (main w argv))"

definition run_calls :: "world \<Rightarrow> string list \<Rightarrow> call list" where
  "run_calls w argv = calls (snd (main w argv))"

text \<open>All three required names resolve to an address.\<close>

definition resolved :: "module \<Rightarrow> bool" where
  "resolved lib \<longleftrightarrow>
     exports lib ''PassThruOpen'' \<and> exports lib ''PassThruClose'' \<and>
     exports lib ''PassThruGetLastError''"

subsection \<open>Sample drivers and a sample platform\<close>

text \<open>
  Concrete worlds on which the theorems below are run: a driver that works, one with no
  device attached (status 8, \<^verbatim>\<open>ERR_DEVICE_NOT_CONNECTED\<close>), one whose close fails
  (status 26, \<^verbatim>\<open>ERR_INVALID_DEVICE_ID\<close>), a library without
  \<^verbatim>\<open>PassThruGetLastError\<close>, and a platform where every other path fails to load
  with error 126.
\<close>

definition j2534_names :: "string \<Rightarrow> bool" where
  "j2534_names n \<longleftrightarrow> n = ''PassThruOpen'' \<or> n = ''PassThruClose'' \<or> n = ''PassThruGetLastError''"

definition drv_good :: module where
  "drv_good = \<lparr>exports = j2534_names, pt_open = (\<lambda>d. (0, 1)), pt_close = (\<lambda>d. 0),
     pt_last_error = mk_drv_text []\<rparr>"

definition drv_no_device :: module where
  "drv_no_device = \<lparr>exports = j2534_names, pt_open = (\<lambda>d. (8, d)), pt_close = (\<lambda>d. 0),
     pt_last_error = mk_drv_text ''Device not connected''\<rparr>"

definition drv_close_fails :: module where
  "drv_close_fails = \<lparr>exports = j2534_names, pt_open = (\<lambda>d. (0, 5)), pt_close = (\<lambda>d. 26),
     pt_last_error = mk_drv_text ''Invalid device id''\<rparr>"

definition lib_partial :: module where
  "lib_partial = \<lparr>exports = (\<lambda>n. n = ''PassThruOpen'' \<or> n = ''PassThruClose''),
     pt_open = (\<lambda>d. (0, 1)), pt_close = (\<lambda>d. 0), pt_last_error = mk_drv_text []\<rparr>"

definition sample_load :: "string \<Rightarrow> module option" where
  "sample_load path =
     (if path = ''good.dll'' then Some drv_good
      else if path = ''nodevice.dll'' then Some drv_no_device
      else if path = ''closefails.dll'' then Some drv_close_fails
      else if path = ''partial.dll'' then Some lib_partial
      else None)"

definition sample_world :: world where
  "sample_world = \<lparr>load_library = sample_load, last_error = 126,
     format_message = (\<lambda>e. if e = 126 then Some ''The specified module could not be found.'' else None)\<rparr>"

definition drv_good_other :: module where
  "drv_good_other = \<lparr>exports = (\<lambda>n. True), pt_open = (\<lambda>d. (0, 77)),
     pt_close = (\<lambda>d. if d = 77 then 0 else 3), pt_last_error = mk_drv_text []\<rparr>"

definition other_world :: world where
  "other_world = \<lparr>load_library = (\<lambda>path. Some drv_good_other), last_error = 5,
     format_message = (\<lambda>e. None)\<rparr>"

subsection \<open>Reading a report line\<close>

text \<open>
  A consumer of the report looks for a key among the fields that come before the
  message, which is the last field of every line the program writes and the only one
  that holds text from outside. \<open>before_key\<close> is the text before the first occurrence of
  a key, \<open>after_key\<close> the text after it, and \<open>occurs\<close> tells whether a key occurs at all.
\<close>

fun before_key :: "string \<Rightarrow> string \<Rightarrow> string" where
  "before_key key [] = []"
| "before_key key (c # cs) = (if prefix key (c # cs) then [] else c # before_key key cs)"

fun after_key :: "string \<Rightarrow> string \<Rightarrow> string" where
  "after_key key [] = []"
| "after_key key (c # cs) =
     (if prefix key (c # cs) then drop (length key) (c # cs) else after_key key cs)"

fun occurs :: "string \<Rightarrow> string \<Rightarrow> bool" where
  "occurs key [] \<longleftrightarrow> key = []"
| "occurs key (c # cs) \<longleftrightarrow> prefix key (c # cs) \<or> occurs key cs"

definition fields :: "string \<Rightarrow> string" where
  \<open>fields line = before_key ''"message":'' line\<close>

definition has_code_field :: "string \<Rightarrow> bool" where
  \<open>has_code_field line \<longleftrightarrow> occurs ''"code":'' (fields line)\<close>

definition stage_is :: "string \<Rightarrow> string \<Rightarrow> bool" where
  \<open>stage_is s line \<longleftrightarrow> occurs (''"stage":"'' @ s @ ''"'') (fields line)\<close>

text \<open>
  Reading the decimal text of a \<^verbatim>\<open>long\<close> back, and with it the value of the
  \<^verbatim>\<open>code\<close> field of a line: the digits between the key and the next comma.
\<close>

definition digit_val :: "char \<Rightarrow> nat" where
  "digit_val c = of_char c - 48"

definition read_nat :: "string \<Rightarrow> nat" where
  "read_nat s = foldl (\<lambda>a c. 10 * a + digit_val c) 0 s"

definition read_int :: "string \<Rightarrow> int" where
  "read_int s = (case s of c # r \<Rightarrow> if c = CHR ''-'' then - int (read_nat r) else int (read_nat s) | [] \<Rightarrow> 0)"

definition read_long :: "string \<Rightarrow> long" where
  "read_long s = word_of_int (read_int s)"

definition code_of :: "string \<Rightarrow> long option" where
  \<open>code_of line =
     (if has_code_field line
      then Some (read_long
             (takeWhile (\<lambda>c. c \<noteq> CHR '','') (after_key ''"code":'' (fields line))))
      else None)\<close>

subsection \<open>Two worlds that look the same to the probe\<close>

text \<open>
  For one argument vector, two worlds show the probe the same behaviour when the load has
  the same outcome in both and, where it fails, the platform records the same error with
  the same translation; and where it succeeds, the same names resolve, the open call and
  the close call return the same values, and the driver supplies the same error text.
  The device identifier and everything the probe does not ask for may differ.
\<close>

definition same_behaviour :: "world \<Rightarrow> world \<Rightarrow> string list \<Rightarrow> bool" where
  "same_behaviour w1 w2 argv \<longleftrightarrow>
     length argv < 2 \<or>
     (case (load_library w1 (argv ! 1), load_library w2 (argv ! 1)) of
        (None, None) \<Rightarrow>
          last_error w1 = last_error w2 \<and>
          format_message w1 (last_error w1) = format_message w2 (last_error w2)
      | (Some m1, Some m2) \<Rightarrow>
          exports m1 ''PassThruOpen'' = exports m2 ''PassThruOpen'' \<and>
          exports m1 ''PassThruClose'' = exports m2 ''PassThruClose'' \<and>
          exports m1 ''PassThruGetLastError'' = exports m2 ''PassThruGetLastError'' \<and>
          fst (pt_open m1 0) = fst (pt_open m2 0) \<and>
          pt_close m1 (snd (pt_open m1 0)) = pt_close m2 (snd (pt_open m2 0)) \<and>
          pt_last_error m1 = pt_last_error m2
      | _ \<Rightarrow> False)"

section \<open>Properties\<close>

subsection \<open>The buffer of the open stage\<close>

lemma c_str_terminated:
  "NUL \<notin> set t \<Longrightarrow> c_str (t @ NUL # r) = t"
  by (induction t) (auto simp: c_str_def)

lemma c_str_PassThruGetLastError:
  "c_str (PassThruGetLastError m buf) = text_of (pt_last_error m)"
proof -
  have "NUL \<notin> set (text_of (pt_last_error m))"
    using text_of [of "pt_last_error m"] by simp
  then show ?thesis
    by (simp add: PassThruGetLastError_def Let_def c_str_terminated)
qed

lemma length_PassThruGetLastError:
  "length (PassThruGetLastError m (replicate 256 NUL)) = 256"
proof -
  have "length (text_of (pt_last_error m)) < 256"
    using text_of [of "pt_last_error m"] by simp
  then show ?thesis
    by (simp add: PassThruGetLastError_def Let_def)
qed

subsection \<open>The run on each path\<close>

lemmas io_ops = io_start_def to_cout_def to_cerr_def called_def endl_def

lemmas run_defs = run_exit_def run_out_def run_err_def run_calls_def

lemmas sample_defs = sample_world_def sample_load_def drv_good_def drv_no_device_def
  drv_close_fails_def lib_partial_def j2534_names_def resolved_def drv_good_other_def
  other_world_def

lemma GetLastWinError_eq:
  "GetLastWinError w \<sigma> =
     (if last_error w = 0 then (''none'', called Call_GetLastError \<sigma>)
      else case format_message w (last_error w) of
             None \<Rightarrow>
               (''unknown'',
                called (Call_FormatMessageA (last_error w)) (called Call_GetLastError \<sigma>))
           | Some s \<Rightarrow>
               (if s = [] then ''unknown'' else s,
                called Call_LocalFree
                  (called (Call_FormatMessageA (last_error w)) (called Call_GetLastError \<sigma>))))"
  by (simp add: GetLastWinError_def FormatMessageA_def Let_def split: option.splits)

lemma main_usage:
  \<open>length argv < 2 \<Longrightarrow>
   main w argv =
     (2, \<lparr>cout = [], cerr = ''usage: j2534_native_probe <path-to-j2534-dll>\<newline>'',
          calls = []\<rparr>)\<close>
  by (simp add: main_def io_ops)

lemma main_load_failed:
  assumes "2 \<le> length argv" "load_library w (argv ! 1) = None"
  shows \<open>main w argv =
     (1, \<lparr>cout = [],
          cerr = ''{"status":"error","stage":"load","message":"'' @
                 fst (GetLastWinError w io_start) @ ''"}\<newline>'',
          calls = Call_LoadLibraryA (argv ! 1) # calls (snd (GetLastWinError w io_start))\<rparr>)\<close>
  using assms by (simp add: main_def io_ops Let_def GetLastWinError_eq split: option.splits)

lemma main_symbols:
  assumes "2 \<le> length argv" "load_library w (argv ! 1) = Some lib" "\<not> resolved lib"
  shows \<open>main w argv =
     (1, \<lparr>cout = [],
          cerr = ''{"status":"error","stage":"symbols","message":"Required J2534 exports missing"}\<newline>'',
          calls = [Call_LoadLibraryA (argv ! 1), Call_GetProcAddress ''PassThruOpen'',
            Call_GetProcAddress ''PassThruClose'', Call_GetProcAddress ''PassThruGetLastError'',
            Call_FreeLibrary]\<rparr>)\<close>
  using assms by (auto simp add: main_def io_ops resolved_def Let_def)

lemma main_open_failed:
  assumes "2 \<le> length argv" "load_library w (argv ! 1) = Some lib" "resolved lib"
    "pt_open lib 0 = (st, dev)" "st \<noteq> 0"
  shows \<open>main w argv =
     (1, \<lparr>cout = [],
          cerr = ''{"status":"error","stage":"open","code":'' @ show_long st @
                 '',"message":"'' @ text_of (pt_last_error lib) @ ''"}\<newline>'',
          calls = [Call_LoadLibraryA (argv ! 1), Call_GetProcAddress ''PassThruOpen'',
            Call_GetProcAddress ''PassThruClose'', Call_GetProcAddress ''PassThruGetLastError'',
            Call_PassThruOpen, Call_PassThruGetLastError, Call_FreeLibrary]\<rparr>)\<close>
  using assms by (simp add: main_def io_ops resolved_def Let_def c_str_PassThruGetLastError)

lemma main_close_failed:
  assumes "2 \<le> length argv" "load_library w (argv ! 1) = Some lib" "resolved lib"
    "pt_open lib 0 = (0, dev)" "pt_close lib dev = st" "st \<noteq> 0"
  shows \<open>main w argv =
     (1, \<lparr>cout = [],
          cerr = ''{"status":"error","stage":"close","code":'' @ show_long st @
                 '',"message":"PassThruClose failed"}\<newline>'',
          calls = [Call_LoadLibraryA (argv ! 1), Call_GetProcAddress ''PassThruOpen'',
            Call_GetProcAddress ''PassThruClose'', Call_GetProcAddress ''PassThruGetLastError'',
            Call_PassThruOpen, Call_PassThruClose dev, Call_FreeLibrary]\<rparr>)\<close>
  using assms by (simp add: main_def io_ops resolved_def Let_def)

lemma main_ok:
  assumes "2 \<le> length argv" "load_library w (argv ! 1) = Some lib" "resolved lib"
    "pt_open lib 0 = (0, dev)" "pt_close lib dev = 0"
  shows \<open>main w argv =
     (0, \<lparr>cout = ''{"status":"ok","message":"J2534 DLL probe successful"}\<newline>'',
          cerr = [],
          calls = [Call_LoadLibraryA (argv ! 1), Call_GetProcAddress ''PassThruOpen'',
            Call_GetProcAddress ''PassThruClose'', Call_GetProcAddress ''PassThruGetLastError'',
            Call_PassThruOpen, Call_PassThruClose dev, Call_FreeLibrary]\<rparr>)\<close>
  using assms by (simp add: main_def io_ops resolved_def Let_def)

text \<open>The sample drivers' texts fit the buffer unchanged.\<close>

lemma sample_texts:
  "text_of (mk_drv_text []) = []"
  "text_of (mk_drv_text ''Device not connected'') = ''Device not connected''"
  "text_of (mk_drv_text ''Invalid device id'') = ''Invalid device id''"
  by (simp_all add: mk_drv_text.rep_eq)

lemma run_path_cases:
  assumes "2 \<le> length argv" "load_library w (argv ! 1) = Some lib"
  obtains (symbols) "\<not> resolved lib"
  | (open_failed) st dev where "resolved lib" "pt_open lib 0 = (st, dev)" "st \<noteq> 0"
  | (close_failed) dev st where "resolved lib" "pt_open lib 0 = (0, dev)" "pt_close lib dev = st" "st \<noteq> 0"
  | (ok) dev where "resolved lib" "pt_open lib 0 = (0, dev)" "pt_close lib dev = 0"
  by (cases "pt_open lib 0") auto

lemma run_exit_probe:
  assumes "2 \<le> length argv"
  shows "run_exit w argv = 0 \<or> run_exit w argv = 1"
proof (cases "load_library w (argv ! 1)")
  case None
  from main_load_failed [OF assms this] show ?thesis by (simp add: run_defs)
next
  case (Some lib)
  from assms Some show ?thesis
  proof (cases rule: run_path_cases)
    case symbols
    from main_symbols [OF assms Some this] show ?thesis by (simp add: run_defs)
  next
    case (open_failed st dev)
    from main_open_failed [OF assms Some this] show ?thesis by (simp add: run_defs)
  next
    case (close_failed dev st)
    from main_close_failed [OF assms Some this] show ?thesis by (simp add: run_defs)
  next
    case (ok dev)
    from main_ok [OF assms Some this] show ?thesis by (simp add: run_defs)
  qed
qed

lemma first_call:
  assumes "2 \<le> length argv"
  shows "hd (run_calls w argv) = Call_LoadLibraryA (argv ! 1)"
proof (cases "load_library w (argv ! 1)")
  case None
  from main_load_failed [OF assms this] show ?thesis by (simp add: run_defs)
next
  case (Some lib)
  from assms Some show ?thesis
  proof (cases rule: run_path_cases)
    case symbols
    from main_symbols [OF assms Some this] show ?thesis by (simp add: run_defs)
  next
    case (open_failed st dev)
    from main_open_failed [OF assms Some this] show ?thesis by (simp add: run_defs)
  next
    case (close_failed dev st)
    from main_close_failed [OF assms Some this] show ?thesis by (simp add: run_defs)
  next
    case (ok dev)
    from main_ok [OF assms Some this] show ?thesis by (simp add: run_defs)
  qed
qed

text \<open>The sample runs that open or close with an error print these codes.\<close>

lemma show_long_8: "show_long 8 = ''8''"
  by code_simp

lemma show_long_26: "show_long 26 = ''26''"
  by code_simp

lemma sample_close_failure:
  \<open>run_err sample_world [''probe'', ''closefails.dll''] =
     ''{"status":"error","stage":"close","code":'' @ show_long 26 @
     '',"message":"PassThruClose failed"}\<newline>''\<close>
proof -
  have \<open>main sample_world [''probe'', ''closefails.dll''] =
    (1, \<lparr>cout = [],
          cerr = ''{"status":"error","stage":"close","code":'' @ show_long 26 @
                 '',"message":"PassThruClose failed"}\<newline>'',
          calls = [Call_LoadLibraryA ([''probe'', ''closefails.dll''] ! 1), Call_GetProcAddress ''PassThruOpen'',
            Call_GetProcAddress ''PassThruClose'', Call_GetProcAddress ''PassThruGetLastError'',
            Call_PassThruOpen, Call_PassThruClose 5, Call_FreeLibrary]\<rparr>)\<close>
    by (rule main_close_failed [where lib = drv_close_fails]) (simp_all add: sample_defs)
  then show ?thesis
    by (simp add: run_defs)
qed

subsection \<open>The decimal text of a status determines the status\<close>

lemma digit_val_digit_char: "d < 10 \<Longrightarrow> digit_val (digit_char d) = d"
  by (simp add: digit_val_def digit_char_def)

lemma digit_char_not_minus: "d < 10 \<Longrightarrow> digit_char d \<noteq> CHR ''-''"
proof
  assume "d < 10" and "digit_char d = CHR ''-''"
  then have "of_char (digit_char d) = (of_char (CHR ''-'') :: nat)"
    by simp
  with \<open>d < 10\<close> show False
    by (simp add: digit_char_def)
qed

lemma read_nat_snoc: "read_nat (s @ [c]) = 10 * read_nat s + digit_val c"
  by (simp add: read_nat_def)

lemma read_nat_show_nat: "read_nat (show_nat n) = n"
proof (induction n rule: show_nat.induct)
  case (1 n)
  show ?case
  proof (cases "n < 10")
    case True
    then show ?thesis
      by (simp add: show_nat.simps [of n] read_nat_def digit_val_digit_char)
  next
    case False
    with 1 have "read_nat (show_nat (n div 10)) = n div 10"
      by simp
    with False show ?thesis
      by (simp add: show_nat.simps [of n] read_nat_snoc digit_val_digit_char)
  qed
qed

lemma show_nat_first: "\<exists>c r. show_nat n = c # r \<and> c \<noteq> CHR ''-''"
proof (induction n rule: show_nat.induct)
  case (1 n)
  show ?case
  proof (cases "n < 10")
    case True
    then show ?thesis
      by (simp add: show_nat.simps [of n] digit_char_not_minus)
  next
    case False
    with 1 obtain c r where "show_nat (n div 10) = c # r" "c \<noteq> CHR ''-''"
      by auto
    with False show ?thesis
      by (simp add: show_nat.simps [of n])
  qed
qed

lemma read_int_show_int: "read_int (show_int i) = i"
proof (cases "i < 0")
  case True
  then show ?thesis
    by (simp add: show_int_def read_int_def read_nat_show_nat)
next
  case False
  obtain c r where "show_nat (nat i) = c # r" "c \<noteq> CHR ''-''"
    using show_nat_first by blast
  with False read_nat_show_nat [of "nat i"] show ?thesis
    by (simp add: show_int_def read_int_def)
qed

lemma read_long_show_long: "read_long (show_long x) = x"
  by (simp add: read_long_def show_long_def read_int_show_int)

subsection \<open>Reading the reports of the program\<close>

lemmas line_defs = has_code_field_def stage_is_def fields_def

lemma before_key_skip:
  "c \<notin> set xs \<Longrightarrow> before_key (c # k) (xs @ ys) = xs @ before_key (c # k) ys"
  by (induction xs) auto

lemma occurs_skip:
  "c \<notin> set xs \<Longrightarrow> occurs (c # k) (xs @ y # ys) = occurs (c # k) (y # ys)"
  by (induction xs) auto

lemma takeWhile_until:
  "c \<notin> set xs \<Longrightarrow> takeWhile (\<lambda>x. x \<noteq> c) (xs @ c # ys) = xs"
  by (induction xs) auto

text \<open>The decimal text of a status has digits and a minus sign only.\<close>

lemma digit_char_code: "d < 10 \<Longrightarrow> of_char (digit_char d) = 48 + d"
  by (simp add: digit_char_def)

lemma show_nat_chars: "c \<in> set (show_nat n) \<Longrightarrow> (48 :: nat) \<le> of_char c"
proof (induction n rule: show_nat.induct)
  case (1 n)
  show ?case
  proof (cases "n < 10")
    case True
    with 1(2) show ?thesis
      by (auto simp: show_nat.simps [of n] digit_char_code)
  next
    case False
    with 1 show ?thesis
      by (auto simp: show_nat.simps [of n] digit_char_code)
  qed
qed

lemma show_long_chars:
  assumes "c \<in> set (show_long x)"
  shows "c = CHR ''-'' \<or> (48 :: nat) \<le> of_char c"
  using assms by (auto simp: show_long_def show_int_def dest: show_nat_chars split: if_splits)

lemma show_long_no_quote: "CHR 0x22 \<notin> set (show_long x)"
  using show_long_chars [of "CHR 0x22" x] by auto

lemma show_long_no_comma: "CHR '','' \<notin> set (show_long x)"
  using show_long_chars [of "CHR '',''" x] by auto

lemmas line_simps = line_defs before_key_skip occurs_skip show_long_no_quote

lemma code_of_open:
  \<open>code_of (''{"status":"error","stage":"open","code":'' @ show_long st @
      '',"message":"'' @ t @ ''"}\<newline>'') = Some st\<close>
  by (simp add: code_of_def line_simps takeWhile_until show_long_no_comma read_long_show_long)

lemma code_of_close:
  \<open>code_of (''{"status":"error","stage":"close","code":'' @ show_long st @
      '',"message":"PassThruClose failed"}\<newline>'') = Some st\<close>
  by (simp add: code_of_def line_simps takeWhile_until show_long_no_comma read_long_show_long)


subsection \<open>Claims\<close>

text \<open>
  C1. Whenever the library loads, the run calls \<^verbatim>\<open>FreeLibrary\<close> exactly once, whatever
  happens afterwards (a name that does not resolve, a failing open, a failing or a
  successful close). The load is the first foreign call of the run and the release is the
  last one, so the handle is neither released twice nor left open at exit.
\<close>

theorem handle_released_exactly_once:
  assumes "2 \<le> length argv" and "load_library w (argv ! 1) = Some lib"
  shows "count_list (run_calls w argv) Call_FreeLibrary = 1
    \<and> hd (run_calls w argv) = Call_LoadLibraryA (argv ! 1)
    \<and> last (run_calls w argv) = Call_FreeLibrary"
  using assms
proof (cases rule: run_path_cases)
  case symbols
  from main_symbols [OF assms this] show ?thesis by (simp add: run_defs)
next
  case (open_failed st dev)
  from main_open_failed [OF assms this] show ?thesis by (simp add: run_defs)
next
  case (close_failed dev st)
  from main_close_failed [OF assms this] show ?thesis by (simp add: run_defs)
next
  case (ok dev)
  from main_ok [OF assms this] show ?thesis by (simp add: run_defs)
qed

theorem handle_released_exactly_once_witness:
  "2 \<le> length [''probe'', ''closefails.dll'']
   \<and> load_library sample_world ([''probe'', ''closefails.dll''] ! 1) = Some drv_close_fails
   \<and> count_list (run_calls sample_world [''probe'', ''closefails.dll'']) Call_FreeLibrary = 1
   \<and> hd (run_calls sample_world [''probe'', ''closefails.dll'']) = Call_LoadLibraryA ''closefails.dll''
   \<and> last (run_calls sample_world [''probe'', ''closefails.dll'']) = Call_FreeLibrary"
proof -
  have h: "2 \<le> length [''probe'', ''closefails.dll'']"
    "load_library sample_world ([''probe'', ''closefails.dll''] ! 1) = Some drv_close_fails"
    by (simp_all add: sample_defs)
  from h handle_released_exactly_once [OF h] show ?thesis
    by simp
qed

text \<open>
  C2. When the library loads, all three names resolve, and the open and the close call
  both return 0, the run writes the one line
  \<^verbatim>\<open>{"status":"ok","message":"J2534 DLL probe successful"}\<close>, ended by its newline, to
  standard output, nothing to standard error, and exits with code 0.
\<close>

theorem success_report:
  assumes "2 \<le> length argv" and "load_library w (argv ! 1) = Some lib" and "resolved lib"
    and "pt_open lib 0 = (0, dev)" and "pt_close lib dev = 0"
  shows \<open>run_out w argv = ''{"status":"ok","message":"J2534 DLL probe successful"}\<newline>''
    \<and> count_list (run_out w argv) CHR ''\<newline>'' = 1
    \<and> run_err w argv = []
    \<and> run_exit w argv = 0\<close>
  using main_ok [OF assms] by (simp add: run_defs)

theorem success_report_witness:
  \<open>2 \<le> length [''probe'', ''good.dll'']
   \<and> load_library sample_world ([''probe'', ''good.dll''] ! 1) = Some drv_good
   \<and> resolved drv_good
   \<and> pt_open drv_good 0 = (0, 1)
   \<and> pt_close drv_good 1 = 0
   \<and> run_out sample_world [''probe'', ''good.dll''] =
       ''{"status":"ok","message":"J2534 DLL probe successful"}\<newline>''
   \<and> count_list (run_out sample_world [''probe'', ''good.dll'']) CHR ''\<newline>'' = 1
   \<and> run_err sample_world [''probe'', ''good.dll''] = []
   \<and> run_exit sample_world [''probe'', ''good.dll''] = 0\<close>
proof -
  have h: "2 \<le> length [''probe'', ''good.dll'']"
    "load_library sample_world ([''probe'', ''good.dll''] ! 1) = Some drv_good"
    "resolved drv_good" "pt_open drv_good 0 = (0, 1)" "pt_close drv_good 1 = 0"
    by (simp_all add: sample_defs)
  from h success_report [OF h] show ?thesis
    by blast
qed

text \<open>
  C3. The data model of the specification gives the \<^verbatim>\<open>code\<close> field to the report of
  stage \<^verbatim>\<open>open\<close> only. \<^verbatim>\<open>main\<close> prints it in the report of stage \<^verbatim>\<open>close\<close>
  as well, as the specification's description of the error stream says. What holds for
  every run: the line on standard error carries a \<^verbatim>\<open>code\<close> field exactly when its
  stage is \<^verbatim>\<open>open\<close> or \<^verbatim>\<open>close\<close>, so the reports of stage \<^verbatim>\<open>load\<close> and
  \<^verbatim>\<open>symbols\<close> and the usage line have none, and neither has anything written to
  standard output.
\<close>

theorem code_field_open_and_close:
  "(has_code_field (run_err w argv) \<longleftrightarrow>
      stage_is ''open'' (run_err w argv) \<or> stage_is ''close'' (run_err w argv))
   \<and> \<not> has_code_field (run_out w argv)"
proof (cases "length argv < 2")
  case True
  from main_usage [OF True, of w] show ?thesis
    by (simp add: run_defs line_defs)
next
  case False
  then have len: "2 \<le> length argv"
    by simp
  show ?thesis
  proof (cases "load_library w (argv ! 1)")
    case None
    from main_load_failed [OF len None] show ?thesis
      by (simp add: run_defs line_defs)
  next
    case (Some lib)
    from len Some show ?thesis
    proof (cases rule: run_path_cases)
      case symbols
      from main_symbols [OF len Some this] show ?thesis
        by (simp add: run_defs line_defs)
    next
      case (open_failed st dev)
      from main_open_failed [OF len Some this] show ?thesis
        by (simp add: run_defs line_simps)
    next
      case (close_failed dev st)
      from main_close_failed [OF len Some this] show ?thesis
        by (simp add: run_defs line_simps)
    next
      case (ok dev)
      from main_ok [OF len Some this] show ?thesis
        by (simp add: run_defs line_defs)
    qed
  qed
qed

theorem code_field_open_and_close_witness:
  "has_code_field (run_err sample_world [''probe'', ''nodevice.dll''])
   \<and> stage_is ''open'' (run_err sample_world [''probe'', ''nodevice.dll''])
   \<and> \<not> has_code_field (run_out sample_world [''probe'', ''nodevice.dll''])"
proof -
  have \<open>main sample_world [''probe'', ''nodevice.dll''] =
    (1, \<lparr>cout = [],
          cerr = ''{"status":"error","stage":"open","code":'' @ show_long 8 @
                 '',"message":"'' @ text_of (pt_last_error drv_no_device) @ ''"}\<newline>'',
          calls = [Call_LoadLibraryA ([''probe'', ''nodevice.dll''] ! 1), Call_GetProcAddress ''PassThruOpen'',
            Call_GetProcAddress ''PassThruClose'', Call_GetProcAddress ''PassThruGetLastError'',
            Call_PassThruOpen, Call_PassThruGetLastError, Call_FreeLibrary]\<rparr>)\<close>
    by (rule main_open_failed [where lib = drv_no_device, where dev = 0]) (simp_all add: sample_defs)
  then have "stage_is ''open'' (run_err sample_world [''probe'', ''nodevice.dll''])"
    by (simp add: run_defs line_defs show_long_8)
  with code_field_open_and_close [of sample_world "[''probe'', ''nodevice.dll'']"]
  show ?thesis
    by simp
qed

text \<open>
  C3, as the data model words it, fails on the run against the sample driver whose close
  returns 26: the report is of stage \<^verbatim>\<open>close\<close>, not of stage \<^verbatim>\<open>open\<close>, and it has
  the \<^verbatim>\<open>code\<close> field.
\<close>

theorem code_field_only_open_counterexample:
  "has_code_field (run_err sample_world [''probe'', ''closefails.dll''])
   \<and> stage_is ''close'' (run_err sample_world [''probe'', ''closefails.dll''])
   \<and> \<not> stage_is ''open'' (run_err sample_world [''probe'', ''closefails.dll''])"
  by (simp add: sample_close_failure line_defs show_long_26)

text \<open>
  C4. When the library loads, the three names resolve and the open call returns a
  status other than 0, the run calls \<^verbatim>\<open>PassThruGetLastError\<close>, writes to standard error
  the one report of stage \<^verbatim>\<open>open\<close> whose \<^verbatim>\<open>code\<close> is the decimal text of the
  returned status (read back, it is that status) and whose message is the text the driver
  left in the buffer, writes nothing to standard output, releases the library and exits
  with code 1. \<^verbatim>\<open>PassThruClose\<close> is not called.
\<close>

theorem open_failure_report:
  assumes "2 \<le> length argv" and "load_library w (argv ! 1) = Some lib" and "resolved lib"
    and "pt_open lib 0 = (st, dev)" and "st \<noteq> 0"
  shows \<open>run_err w argv =
      ''{"status":"error","stage":"open","code":'' @ show_long st @
      '',"message":"'' @ text_of (pt_last_error lib) @ ''"}'' @ endl
    \<and> code_of (run_err w argv) = Some st
    \<and> run_out w argv = []
    \<and> run_exit w argv = 1
    \<and> run_calls w argv =
        [Call_LoadLibraryA (argv ! 1), Call_GetProcAddress ''PassThruOpen'',
         Call_GetProcAddress ''PassThruClose'', Call_GetProcAddress ''PassThruGetLastError'',
         Call_PassThruOpen, Call_PassThruGetLastError, Call_FreeLibrary]
    \<and> (\<forall>d. Call_PassThruClose d \<notin> set (run_calls w argv))\<close>
proof -
  note run = main_open_failed [OF assms]
  have "code_of (run_err w argv) = Some st"
    by (simp only: run_err_def run snd_conv io.select_convs code_of_open)
  with run show ?thesis
    by (simp add: run_defs endl_def)
qed

theorem open_failure_report_witness:
  \<open>2 \<le> length [''probe'', ''nodevice.dll'']
   \<and> load_library sample_world ([''probe'', ''nodevice.dll''] ! 1) = Some drv_no_device
   \<and> resolved drv_no_device
   \<and> pt_open drv_no_device 0 = (8, 0)
   \<and> (8 :: long) \<noteq> 0
   \<and> run_err sample_world [''probe'', ''nodevice.dll''] =
       ''{"status":"error","stage":"open","code":8,"message":"Device not connected"}\<newline>''
   \<and> code_of (run_err sample_world [''probe'', ''nodevice.dll'']) = Some 8
   \<and> run_out sample_world [''probe'', ''nodevice.dll''] = []
   \<and> run_exit sample_world [''probe'', ''nodevice.dll''] = 1
   \<and> run_calls sample_world [''probe'', ''nodevice.dll''] =
        [Call_LoadLibraryA ''nodevice.dll'', Call_GetProcAddress ''PassThruOpen'',
         Call_GetProcAddress ''PassThruClose'', Call_GetProcAddress ''PassThruGetLastError'',
         Call_PassThruOpen, Call_PassThruGetLastError, Call_FreeLibrary]\<close>
proof -
  have h: "2 \<le> length [''probe'', ''nodevice.dll'']"
    "load_library sample_world ([''probe'', ''nodevice.dll''] ! 1) = Some drv_no_device"
    "resolved drv_no_device" "pt_open drv_no_device 0 = (8, 0)" "(8 :: long) \<noteq> 0"
    by (simp_all add: sample_defs)
  note r = open_failure_report [OF h]
  have "text_of (pt_last_error drv_no_device) = ''Device not connected''"
    by (simp add: drv_no_device_def sample_texts)
  with r have e: \<open>run_err sample_world [''probe'', ''nodevice.dll''] =
       ''{"status":"error","stage":"open","code":8,"message":"Device not connected"}\<newline>''\<close>
    by (simp add: show_long_8 endl_def)
  have c: "[''probe'', ''nodevice.dll''] ! 1 = ''nodevice.dll''"
    by simp
  from h r e show ?thesis
    unfolding c by blast
qed

text \<open>
  C5. When the open call returns 0 and the close call returns a status other than 0, the
  run writes to standard error the one report of stage \<^verbatim>\<open>close\<close> whose
  \<^verbatim>\<open>code\<close> is the decimal text of the status the close call returned (read back, it
  is that status) and whose message is the fixed text \<^verbatim>\<open>PassThruClose failed\<close>, and
  exits with code 1. \<^verbatim>\<open>PassThruGetLastError\<close> is not called.
\<close>

theorem close_failure_report:
  assumes "2 \<le> length argv" and "load_library w (argv ! 1) = Some lib" and "resolved lib"
    and "pt_open lib 0 = (0, dev)" and "pt_close lib dev = st" and "st \<noteq> 0"
  shows \<open>run_err w argv =
      ''{"status":"error","stage":"close","code":'' @ show_long st @
      '',"message":"PassThruClose failed"}'' @ endl
    \<and> code_of (run_err w argv) = Some st
    \<and> run_out w argv = []
    \<and> run_exit w argv = 1
    \<and> Call_PassThruGetLastError \<notin> set (run_calls w argv)\<close>
proof -
  note run = main_close_failed [OF assms]
  have "code_of (run_err w argv) = Some st"
    by (simp only: run_err_def run snd_conv io.select_convs code_of_close)
  with run show ?thesis
    by (simp add: run_defs endl_def)
qed

theorem close_failure_report_witness:
  \<open>2 \<le> length [''probe'', ''closefails.dll'']
   \<and> load_library sample_world ([''probe'', ''closefails.dll''] ! 1) = Some drv_close_fails
   \<and> resolved drv_close_fails
   \<and> pt_open drv_close_fails 0 = (0, 5)
   \<and> pt_close drv_close_fails 5 = 26
   \<and> (26 :: long) \<noteq> 0
   \<and> run_err sample_world [''probe'', ''closefails.dll''] =
       ''{"status":"error","stage":"close","code":26,"message":"PassThruClose failed"}\<newline>''
   \<and> code_of (run_err sample_world [''probe'', ''closefails.dll'']) = Some 26
   \<and> run_out sample_world [''probe'', ''closefails.dll''] = []
   \<and> run_exit sample_world [''probe'', ''closefails.dll''] = 1
   \<and> Call_PassThruGetLastError \<notin> set (run_calls sample_world [''probe'', ''closefails.dll''])\<close>
proof -
  have h: "2 \<le> length [''probe'', ''closefails.dll'']"
    "load_library sample_world ([''probe'', ''closefails.dll''] ! 1) = Some drv_close_fails"
    "resolved drv_close_fails" "pt_open drv_close_fails 0 = (0, 5)"
    "pt_close drv_close_fails 5 = 26" "(26 :: long) \<noteq> 0"
    by (simp_all add: sample_defs)
  note r = close_failure_report [OF h]
  then have e: \<open>run_err sample_world [''probe'', ''closefails.dll''] =
       ''{"status":"error","stage":"close","code":26,"message":"PassThruClose failed"}\<newline>''\<close>
    by (simp add: show_long_26 endl_def)
  from h r e show ?thesis
    by blast
qed

text \<open>
  C6. When the library loads and at least one of \<^verbatim>\<open>PassThruOpen\<close>,
  \<^verbatim>\<open>PassThruClose\<close>, \<^verbatim>\<open>PassThruGetLastError\<close> does not resolve, the run writes to
  standard error the one report of stage \<^verbatim>\<open>symbols\<close> with the fixed message, releases
  the library and exits with code 1. Its foreign calls are the load, the three lookups
  and the release: no entry point of the library is called.
\<close>

theorem missing_exports_report:
  assumes "2 \<le> length argv" and "load_library w (argv ! 1) = Some lib"
    and "\<not> exports lib ''PassThruOpen'' \<or> \<not> exports lib ''PassThruClose''
         \<or> \<not> exports lib ''PassThruGetLastError''"
  shows \<open>run_err w argv =
      ''{"status":"error","stage":"symbols","message":"Required J2534 exports missing"}'' @ endl
    \<and> run_out w argv = []
    \<and> run_exit w argv = 1
    \<and> run_calls w argv =
        [Call_LoadLibraryA (argv ! 1), Call_GetProcAddress ''PassThruOpen'',
         Call_GetProcAddress ''PassThruClose'', Call_GetProcAddress ''PassThruGetLastError'',
         Call_FreeLibrary]\<close>
proof -
  from assms(3) have "\<not> resolved lib"
    by (auto simp: resolved_def)
  from main_symbols [OF assms(1,2) this] show ?thesis
    by (simp add: run_defs endl_def)
qed

theorem missing_exports_report_witness:
  \<open>2 \<le> length [''probe'', ''partial.dll'']
   \<and> load_library sample_world ([''probe'', ''partial.dll''] ! 1) = Some lib_partial
   \<and> \<not> exports lib_partial ''PassThruGetLastError''
   \<and> run_err sample_world [''probe'', ''partial.dll''] =
      ''{"status":"error","stage":"symbols","message":"Required J2534 exports missing"}\<newline>''
   \<and> run_out sample_world [''probe'', ''partial.dll''] = []
   \<and> run_exit sample_world [''probe'', ''partial.dll''] = 1
   \<and> run_calls sample_world [''probe'', ''partial.dll''] =
        [Call_LoadLibraryA ''partial.dll'', Call_GetProcAddress ''PassThruOpen'',
         Call_GetProcAddress ''PassThruClose'', Call_GetProcAddress ''PassThruGetLastError'',
         Call_FreeLibrary]\<close>
proof -
  have h: "2 \<le> length [''probe'', ''partial.dll'']"
    "load_library sample_world ([''probe'', ''partial.dll''] ! 1) = Some lib_partial"
    and n: "\<not> exports lib_partial ''PassThruGetLastError''"
    by (simp_all add: sample_defs)
  from n have "\<not> exports lib_partial ''PassThruOpen'' \<or> \<not> exports lib_partial ''PassThruClose''
         \<or> \<not> exports lib_partial ''PassThruGetLastError''"
    by simp
  from h n missing_exports_report [OF h this] show ?thesis
    by (simp add: endl_def)
qed

text \<open>
  C7. When the load fails, the run writes to standard error the one report of stage
  \<^verbatim>\<open>load\<close>. Its message is \<^verbatim>\<open>none\<close> when the platform has recorded no error,
  \<^verbatim>\<open>unknown\<close> when the translation of the recorded error gives no text, and the
  translation otherwise. The exit code is 1, and neither \<^verbatim>\<open>PassThruClose\<close> nor
  \<^verbatim>\<open>FreeLibrary\<close> is called.
\<close>

theorem load_failure_report:
  assumes "2 \<le> length argv" and "load_library w (argv ! 1) = None"
  shows \<open>run_err w argv =
      ''{"status":"error","stage":"load","message":"'' @
      (if last_error w = 0 then ''none''
       else case format_message w (last_error w) of
              None \<Rightarrow> ''unknown''
            | Some text \<Rightarrow> if text = [] then ''unknown'' else text) @
      ''"}'' @ endl
    \<and> run_out w argv = []
    \<and> run_exit w argv = 1
    \<and> (\<forall>d. Call_PassThruClose d \<notin> set (run_calls w argv))
    \<and> Call_FreeLibrary \<notin> set (run_calls w argv)\<close>
  using main_load_failed [OF assms]
  by (simp add: run_defs endl_def GetLastWinError_eq io_ops split: option.splits)

theorem load_failure_report_witness:
  \<open>2 \<le> length [''probe'', ''missing.dll'']
   \<and> load_library sample_world ([''probe'', ''missing.dll''] ! 1) = None
   \<and> run_err sample_world [''probe'', ''missing.dll''] =
      ''{"status":"error","stage":"load","message":"The specified module could not be found."}\<newline>''
   \<and> run_out sample_world [''probe'', ''missing.dll''] = []
   \<and> run_exit sample_world [''probe'', ''missing.dll''] = 1
   \<and> (\<forall>d. Call_PassThruClose d \<notin> set (run_calls sample_world [''probe'', ''missing.dll'']))
   \<and> Call_FreeLibrary \<notin> set (run_calls sample_world [''probe'', ''missing.dll''])\<close>
proof -
  have h: "2 \<le> length [''probe'', ''missing.dll'']"
    "load_library sample_world ([''probe'', ''missing.dll''] ! 1) = None"
    by (simp_all add: sample_defs)
  have "last_error sample_world = 126"
    "format_message sample_world 126 = Some ''The specified module could not be found.''"
    by (simp_all add: sample_defs)
  with h load_failure_report [OF h] show ?thesis
    by (simp add: endl_def)
qed

text \<open>
  C8. With no path argument the run writes the usage line to standard error, nothing to
  standard output, calls nothing and exits with code 2; no run that has a path argument
  exits with code 2.
\<close>

theorem usage_error:
  assumes "length argv < 2"
  shows \<open>run_err w argv = ''usage: j2534_native_probe <path-to-j2534-dll>\<newline>''
    \<and> run_out w argv = []
    \<and> run_calls w argv = []
    \<and> run_exit w argv = 2
    \<and> (\<forall>w' argv'. 2 \<le> length argv' \<longrightarrow> run_exit w' argv' \<noteq> 2)\<close>
proof -
  have "run_exit w' argv' \<noteq> 2" if "2 \<le> length argv'" for w' argv'
    using run_exit_probe [OF that, of w'] by auto
  with main_usage [OF assms, of w] show ?thesis
    by (simp add: run_defs)
qed

theorem usage_error_witness:
  \<open>length [''probe''] < 2
   \<and> run_err sample_world [''probe''] = ''usage: j2534_native_probe <path-to-j2534-dll>\<newline>''
   \<and> run_out sample_world [''probe''] = []
   \<and> run_calls sample_world [''probe''] = []
   \<and> run_exit sample_world [''probe''] = 2
   \<and> run_exit sample_world [''probe'', ''good.dll''] \<noteq> 2\<close>
proof -
  have h: "length [''probe''] < 2"
    by simp
  have "2 \<le> length [''probe'', ''good.dll'']"
    by simp
  with h usage_error [OF h, of sample_world] show ?thesis
    by blast
qed

text \<open>
  C9. Two runs with the same arguments, in worlds that show the probe the same
  behaviour, end with the same exit code and the same text on each stream.
\<close>

theorem same_behaviour_same_report:
  assumes "same_behaviour w1 w2 argv"
  shows "run_exit w1 argv = run_exit w2 argv
    \<and> run_out w1 argv = run_out w2 argv
    \<and> run_err w1 argv = run_err w2 argv"
proof (cases "length argv < 2")
  case True
  from main_usage [OF True, of w1] main_usage [OF True, of w2] show ?thesis
    by (simp add: run_defs)
next
  case False
  then have len: "2 \<le> length argv"
    by simp
  show ?thesis
  proof (cases "load_library w1 (argv ! 1)")
    case None
    with assms len have n2: "load_library w2 (argv ! 1) = None"
      and e: "last_error w1 = last_error w2"
        "format_message w1 (last_error w1) = format_message w2 (last_error w2)"
      by (auto simp: same_behaviour_def split: option.splits)
    from e have "fst (GetLastWinError w1 io_start) = fst (GetLastWinError w2 io_start)"
      by (simp add: GetLastWinError_eq split: option.splits)
    with main_load_failed [OF len None] main_load_failed [OF len n2] show ?thesis
      by (simp add: run_defs)
  next
    case (Some m1)
    with assms len obtain m2 where s2: "load_library w2 (argv ! 1) = Some m2"
      and r: "resolved m1 = resolved m2"
      and opn: "fst (pt_open m1 0) = fst (pt_open m2 0)"
      and cls: "pt_close m1 (snd (pt_open m1 0)) = pt_close m2 (snd (pt_open m2 0))"
      and etext: "pt_last_error m1 = pt_last_error m2"
      by (auto simp: same_behaviour_def resolved_def split: option.splits)
    from len Some show ?thesis
    proof (cases rule: run_path_cases)
      case symbols
      with r have "\<not> resolved m2"
        by simp
      from main_symbols [OF len Some symbols] main_symbols [OF len s2 this] show ?thesis
        by (simp add: run_defs)
    next
      case (open_failed st dev)
      with opn obtain dev2 where "pt_open m2 0 = (st, dev2)"
        by (cases "pt_open m2 0") auto
      with open_failed r have "resolved m2" "pt_open m2 0 = (st, dev2)" "st \<noteq> 0"
        by simp_all
      from main_open_failed [OF len Some open_failed] main_open_failed [OF len s2 this] etext
      show ?thesis
        by (simp add: run_defs)
    next
      case (close_failed dev st)
      with opn obtain dev2 where o2: "pt_open m2 0 = (0, dev2)"
        by (cases "pt_open m2 0") auto
      with close_failed r cls
      have "resolved m2" "pt_open m2 0 = (0, dev2)" "pt_close m2 dev2 = st" "st \<noteq> 0"
        by simp_all
      from main_close_failed [OF len Some close_failed] main_close_failed [OF len s2 this]
      show ?thesis
        by (simp add: run_defs)
    next
      case (ok dev)
      with opn obtain dev2 where o2: "pt_open m2 0 = (0, dev2)"
        by (cases "pt_open m2 0") auto
      with ok r cls
      have "resolved m2" "pt_open m2 0 = (0, dev2)" "pt_close m2 dev2 = 0"
        by simp_all
      from main_ok [OF len Some ok] main_ok [OF len s2 this]
      show ?thesis
        by (simp add: run_defs)
    qed
  qed
qed

theorem same_behaviour_same_report_witness:
  "same_behaviour sample_world other_world [''probe'', ''good.dll'']
   \<and> run_exit sample_world [''probe'', ''good.dll''] = run_exit other_world [''probe'', ''good.dll'']
   \<and> run_out sample_world [''probe'', ''good.dll''] = run_out other_world [''probe'', ''good.dll'']
   \<and> run_err sample_world [''probe'', ''good.dll''] = run_err other_world [''probe'', ''good.dll'']
   \<and> pt_open drv_good 0 \<noteq> pt_open drv_good_other 0"
proof -
  have h: "same_behaviour sample_world other_world [''probe'', ''good.dll'']"
    by (simp add: same_behaviour_def sample_defs)
  have "pt_open drv_good 0 \<noteq> pt_open drv_good_other 0"
    by (simp add: sample_defs)
  with h same_behaviour_same_report [OF h] show ?thesis
    by simp
qed

text \<open>
  C10. Arguments after the path are ignored: the run is the run with the program name
  and the path alone, it is not a usage error, and the library it loads is the one the
  first argument names.
\<close>

theorem extra_arguments_ignored:
  assumes "rest \<noteq> []"
  shows "main w (prog # path # rest) = main w [prog, path]
    \<and> run_exit w (prog # path # rest) \<noteq> 2
    \<and> hd (run_calls w (prog # path # rest)) = Call_LoadLibraryA path"
proof -
  have eq: "main w (prog # path # rest) = main w [prog, path]"
    by (simp add: main_def)
  have "run_exit w [prog, path] = 0 \<or> run_exit w [prog, path] = 1"
    by (rule run_exit_probe) simp
  then have "run_exit w (prog # path # rest) \<noteq> 2"
    by (auto simp: run_exit_def eq)
  moreover have "hd (run_calls w [prog, path]) = Call_LoadLibraryA path"
    using first_call [of "[prog, path]" w] by simp
  ultimately show ?thesis
    by (simp add: eq run_calls_def)
qed

theorem extra_arguments_ignored_witness:
  "[''--verbose'', ''other.dll''] \<noteq> []
   \<and> main sample_world [''probe'', ''good.dll'', ''--verbose'', ''other.dll''] =
       main sample_world [''probe'', ''good.dll'']
   \<and> run_exit sample_world [''probe'', ''good.dll'', ''--verbose'', ''other.dll''] \<noteq> 2
   \<and> hd (run_calls sample_world [''probe'', ''good.dll'', ''--verbose'', ''other.dll'']) =
       Call_LoadLibraryA ''good.dll''"
proof -
  have h: "[''--verbose'', ''other.dll''] \<noteq> []"
    by simp
  from h extra_arguments_ignored [OF h, of sample_world "''probe''" "''good.dll''"]
  show ?thesis
    by simp
qed

end
